theory Spec2Isabelle
  imports Complex_Main
begin

section \<open>The notebook 02-CustomCNN: configuration of a sequential image classifier\<close>

text \<open>
  The notebook is a list of calls into Keras. The embedding keeps the calls as data:
  the layer objects handed to \<^verbatim>\<open>model.add\<close>, the arguments of the two
  \<^verbatim>\<open>flow_from_directory\<close> calls, and the one piece of plain Python, the
  \<^verbatim>\<open>with open(...) as f: f.write(...)\<close> block. Keras itself is not part of the
  repository; where a property needs one of its rules (shape inference, parameter counts)
  the rule is written out below and checked against the summary table that the notebook
  records.
\<close>

subsection \<open>Cell 2: global configuration\<close>

text \<open>
  \<^verbatim>\<open>input_shape = (160, 160, 3)\<close> and \<^verbatim>\<open>num_classes = 10\<close>. A shape is the tuple
  without the batch axis that Keras prints as \<^verbatim>\<open>None\<close>.
\<close>

type_synonym shape = "nat list"

definition input_shape :: shape where
  "input_shape = [160, 160, 3]"

definition num_classes :: nat where
  "num_classes = 10"

subsection \<open>Cell 5: the layer objects\<close>

datatype padding = Same | Valid

datatype activation = Relu | Softmax

text \<open>
  \<^verbatim>\<open>Conv2D(filters, kernel_size, padding=...)\<close>: the padding argument is optional in the
  source, so the constructor carries a \<open>padding option\<close> and \<open>None\<close> stands for a call that
  leaves it out. \<^verbatim>\<open>Dropout(rate)\<close> carries its rate as a fraction.
\<close>

datatype layer =
    Conv2D nat "nat \<times> nat" "padding option"
  | Activation activation
  | MaxPooling2D "nat \<times> nat"
  | Dropout rat
  | Flatten
  | Dense nat

text \<open>The default of Keras for a \<^verbatim>\<open>Conv2D\<close> built without \<^verbatim>\<open>padding\<close> is \<^verbatim>\<open>'valid'\<close>.\<close>

fun conv_padding :: "padding option \<Rightarrow> padding" where
  "conv_padding None = Valid"
| "conv_padding (Some p) = p"

text \<open>
  \<^verbatim>\<open>model = Sequential()\<close> starts with no layer and each \<^verbatim>\<open>model.add(l)\<close> appends one.
\<close>

definition Sequential :: "layer list" where
  "Sequential = []"

definition add :: "layer list \<Rightarrow> layer \<Rightarrow> layer list" where
  "add m l = m @ [l]"

definition model :: "layer list" where
  "model = foldl add Sequential
     [Conv2D 32 (3, 3) (Some Same),
      Activation Relu,
      Conv2D 32 (3, 3) None,
      Activation Relu,
      MaxPooling2D (2, 2),
      Dropout (1 / 4),
      Conv2D 64 (3, 3) (Some Same),
      Activation Relu,
      Conv2D 64 (3, 3) None,
      Activation Relu,
      MaxPooling2D (2, 2),
      Dropout (1 / 4),
      Flatten,
      Dense 512,
      Activation Relu,
      Dropout (1 / 2),
      Dense num_classes,
      Activation Softmax]"

subsection \<open>Shape inference and parameter counts\<close>

datatype error = ValueError | OSError

text \<open>
  The length of one spatial axis after a convolution or pooling window of size
  \<open>filter_size\<close> moved by \<open>stride\<close>: with \<^verbatim>\<open>'same'\<close> padding the axis keeps its length
  (before striding), with \<^verbatim>\<open>'valid'\<close> padding it loses \<open>filter_size - 1\<close> cells, and a
  window larger than the axis is rejected when the layer is built, as is an empty window
  or a stride of zero.
\<close>

definition conv_output_length :: "nat \<Rightarrow> nat \<Rightarrow> padding \<Rightarrow> nat \<Rightarrow> error + nat" where
  "conv_output_length input_length filter_size pad stride =
     (if stride = 0 \<or> filter_size = 0 then Inl ValueError
      else case pad of
        Same \<Rightarrow> Inr ((input_length + stride - 1) div stride)
      | Valid \<Rightarrow>
          if input_length < filter_size then Inl ValueError
          else Inr ((input_length - filter_size + 1 + stride - 1) div stride))"

text \<open>
  The output shape of a layer on an input shape. \<^verbatim>\<open>Conv2D\<close> (stride 1) and
  \<^verbatim>\<open>MaxPooling2D\<close> (stride equal to the pool size, \<^verbatim>\<open>'valid'\<close>) need a
  height-width-channels input; \<^verbatim>\<open>Flatten\<close> multiplies the axes out; \<^verbatim>\<open>Dense\<close>
  replaces the last axis; \<^verbatim>\<open>Activation\<close> and \<^verbatim>\<open>Dropout\<close> keep the shape.
\<close>

fun output_shape :: "layer \<Rightarrow> shape \<Rightarrow> error + shape" where
  "output_shape (Conv2D filters (kh, kw) pad) [h, w, c] =
     (case conv_output_length h kh (conv_padding pad) 1 of
        Inl e \<Rightarrow> Inl e
      | Inr h' \<Rightarrow>
          (case conv_output_length w kw (conv_padding pad) 1 of
             Inl e \<Rightarrow> Inl e
           | Inr w' \<Rightarrow> Inr [h', w', filters]))"
| "output_shape (Conv2D filters k pad) s = Inl ValueError"
| "output_shape (Activation a) s = Inr s"
| "output_shape (MaxPooling2D (ph, pw)) [h, w, c] =
     (case conv_output_length h ph Valid ph of
        Inl e \<Rightarrow> Inl e
      | Inr h' \<Rightarrow>
          (case conv_output_length w pw Valid pw of
             Inl e \<Rightarrow> Inl e
           | Inr w' \<Rightarrow> Inr [h', w', c]))"
| "output_shape (MaxPooling2D p) s = Inl ValueError"
| "output_shape (Dropout rate) s = Inr s"
| "output_shape Flatten s = Inr [prod_list s]"
| "output_shape (Dense units) s =
     (if s = [] then Inl ValueError else Inr (butlast s @ [units]))"

text \<open>
  The number of trainable parameters of a layer on an input shape: a kernel and one bias
  per filter for \<^verbatim>\<open>Conv2D\<close>, a weight matrix and one bias per unit for
  \<^verbatim>\<open>Dense\<close>, none for the others.
\<close>

fun count_params :: "layer \<Rightarrow> shape \<Rightarrow> nat" where
  "count_params (Conv2D filters (kh, kw) pad) s = kh * kw * last s * filters + filters"
| "count_params (Dense units) s = last s * units + units"
| "count_params l s = 0"

text \<open>The shape that leaves a stack of layers, the first failing layer deciding.\<close>

fun compute_output_shape :: "layer list \<Rightarrow> shape \<Rightarrow> error + shape" where
  "compute_output_shape [] s = Inr s"
| "compute_output_shape (l # ls) s =
     (case output_shape l s of
        Inl e \<Rightarrow> Inl e
      | Inr s' \<Rightarrow> compute_output_shape ls s')"

text \<open>
  \<^verbatim>\<open>model.summary()\<close>: one row per layer, with the output shape and the parameter
  count of the layer.
\<close>

fun summary :: "layer list \<Rightarrow> shape \<Rightarrow> error + (shape \<times> nat) list" where
  "summary [] s = Inr []"
| "summary (l # ls) s =
     (case output_shape l s of
        Inl e \<Rightarrow> Inl e
      | Inr s' \<Rightarrow>
          (case summary ls s' of
             Inl e \<Rightarrow> Inl e
           | Inr rows \<Rightarrow> Inr ((s', count_params l s) # rows)))"

fun is_conv :: "layer \<Rightarrow> bool" where
  "is_conv (Conv2D filters k pad) = True"
| "is_conv l = False"

subsection \<open>The stage sequence of the specification\<close>

text \<open>
  The kinds of stage the specification names. In the source the final softmax is an
  \<^verbatim>\<open>Activation\<close> layer like the others; the specification lists it as a stage of its
  own.
\<close>

datatype stage =
  Convolution | ActivationStage | Pooling | DropoutStage | FlattenStage | DenseStage
  | SoftmaxStage

fun stage_of :: "layer \<Rightarrow> stage" where
  "stage_of (Conv2D filters k pad) = Convolution"
| "stage_of (Activation Softmax) = SoftmaxStage"
| "stage_of (Activation a) = ActivationStage"
| "stage_of (MaxPooling2D p) = Pooling"
| "stage_of (Dropout rate) = DropoutStage"
| "stage_of Flatten = FlattenStage"
| "stage_of (Dense units) = DenseStage"

text \<open>
  The stack in the words of the specification: the block "convolution, activation,
  pooling, dropout", repeated, then "flatten, dense, activation, dropout, dense, softmax".
  \<open>spec_stage_stack n\<close> repeats the block \<open>n\<close> times; \<open>is_spec_stage_stack\<close> decides
  whether a sequence is such a stack for some number of repetitions.
\<close>

definition spec_block :: "stage list" where
  "spec_block = [Convolution, ActivationStage, Pooling, DropoutStage]"

definition spec_head :: "stage list" where
  "spec_head =
     [FlattenStage, DenseStage, ActivationStage, DropoutStage, DenseStage, SoftmaxStage]"

definition spec_stage_stack :: "nat \<Rightarrow> stage list" where
  "spec_stage_stack n = concat (replicate n spec_block) @ spec_head"

fun is_spec_stage_stack :: "stage list \<Rightarrow> bool" where
  "is_spec_stage_stack (Convolution # ActivationStage # Pooling # DropoutStage # rest) =
     is_spec_stage_stack rest"
| "is_spec_stage_stack ss = (ss = spec_head)"

text \<open>The block the source repeats: two convolutions, each with its activation.\<close>

definition source_block :: "stage list" where
  "source_block =
     [Convolution, ActivationStage, Convolution, ActivationStage, Pooling, DropoutStage]"

subsection \<open>Cells 3 and 4: the two data generators\<close>

text \<open>
  \<^verbatim>\<open>ImageDataGenerator(rescale=1./255)\<close>: every other argument keeps its default, so
  \<open>rescale\<close> is the one field kept; its default is \<^verbatim>\<open>None\<close>. Python evaluates
  \<^verbatim>\<open>1./255\<close> to a double, the one nearest to \<open>1 / 255\<close>, and the field holds that
  double as the rational it is. What the generator computes with it on the pixels is
  floating-point code of Keras and is not modelled.
\<close>

record ImageDataGenerator =
  rescale :: "rat option"

definition train_datagen :: ImageDataGenerator where
  "train_datagen = \<lparr>rescale = Some (282578800148737 / 2 ^ 56)\<rparr>"

definition valid_datagen :: ImageDataGenerator where
  "valid_datagen = \<lparr>rescale = Some (282578800148737 / 2 ^ 56)\<rparr>"

text \<open>
  \<^verbatim>\<open>flow_from_directory(directory, batch_size=32, shuffle=True, class_mode, target_size)\<close>:
  the two arguments that one of the calls leaves out are options, resolved to the defaults
  of Keras.
\<close>

record DirectoryIterator =
  image_data_generator :: ImageDataGenerator
  directory :: string
  batch_size :: nat
  shuffle :: bool
  class_mode :: string
  target_size :: "nat \<times> nat"

definition flow_from_directory ::
  "ImageDataGenerator \<Rightarrow> string \<Rightarrow> nat option \<Rightarrow> bool option \<Rightarrow> string \<Rightarrow> nat \<times> nat
     \<Rightarrow> DirectoryIterator" where
  "flow_from_directory gen dir bs sh cm ts =
     \<lparr>image_data_generator = gen,
      directory = dir,
      batch_size = (case bs of None \<Rightarrow> 32 | Some b \<Rightarrow> b),
      shuffle = (case sh of None \<Rightarrow> True | Some b \<Rightarrow> b),
      class_mode = cm,
      target_size = ts\<rparr>"

definition train_generator :: DirectoryIterator where
  "train_generator =
     flow_from_directory train_datagen ''imagenette-160/train'' (Some 64) None
       ''categorical'' (160, 160)"

definition valid_generator :: DirectoryIterator where
  "valid_generator =
     flow_from_directory valid_datagen ''imagenette-160/val'' None (Some False)
       ''categorical'' (160, 160)"

subsection \<open>Cell 11: writing the architecture file\<close>

text \<open>
  \<^verbatim>\<open>with open('models/custom_architecture.json', 'w') as f: f.write(model.to_json())\<close>

  The block asks the operating system for three things in turn: to open the path in
  write mode, to write the text, and, on leaving the \<^verbatim>\<open>with\<close> block, to close the
  file. Which paths can be opened and which writes succeed is for the operating system
  to decide, so it is a parameter: each of its three operations takes the state of the
  system and answers with an error or none, and with the state it leaves.
\<close>

datatype call =
    Open string string
  | Write string string
  | Close string
  | Rename string string

record 'fs os =
  os_open :: "'fs \<Rightarrow> string \<Rightarrow> string \<Rightarrow> error option \<times> 'fs"
  os_write :: "'fs \<Rightarrow> string \<Rightarrow> string \<Rightarrow> error option \<times> 'fs"
  os_close :: "'fs \<Rightarrow> string \<Rightarrow> error option \<times> 'fs"

text \<open>
  The block of cell 11, with the text of \<^verbatim>\<open>model.to_json()\<close> as \<open>json\<close>. It returns
  the outcome, the state of the system and the calls it made. An error of
  \<^verbatim>\<open>open\<close> leaves the block at once. Once the file is open it is closed whatever the
  write does; an error of the close is the one that reaches the caller, otherwise the
  error of the write does.
\<close>

definition save_architecture ::
  "'fs os \<Rightarrow> 'fs \<Rightarrow> string \<Rightarrow> string \<Rightarrow> (error + unit) \<times> 'fs \<times> call list" where
  "save_architecture sys fs path json =
     (case os_open sys fs path ''w'' of
        (Some e, fs1) \<Rightarrow> (Inl e, fs1, [Open path ''w''])
      | (None, fs1) \<Rightarrow>
          (case os_write sys fs1 path json of
             (w, fs2) \<Rightarrow>
               (case os_close sys fs2 path of
                  (c, fs3) \<Rightarrow>
                    ((case c of
                        Some e \<Rightarrow> Inl e
                      | None \<Rightarrow> (case w of Some e \<Rightarrow> Inl e | None \<Rightarrow> Inr ())),
                     fs3,
                     [Open path ''w'', Write path json, Close path]))))"

text \<open>
  The mechanism in the words of the specification, "write to a temporary path and
  atomically rename on success": the target path itself is never opened and never
  written, it is only the destination of a rename.
\<close>

fun touches_directly :: "string \<Rightarrow> call \<Rightarrow> bool" where
  "touches_directly target (Open p m) = (p = target)"
| "touches_directly target (Write p s) = (p = target)"
| "touches_directly target (Close p) = (p = target)"
| "touches_directly target (Rename src dst) = False"

fun is_rename :: "call \<Rightarrow> bool" where
  "is_rename (Rename src dst) = True"
| "is_rename c = False"

definition spec_temporary_then_rename :: "string \<Rightarrow> call list \<Rightarrow> bool" where
  "spec_temporary_then_rename target cs = (\<not> list_ex (touches_directly target) cs)"

text \<open>
  An operating system to run the block on: it keeps the text of each file and a set of
  paths that it refuses to open. A refused open changes nothing; an open in write mode
  empties the file; a write appends to it.
\<close>

record store =
  contents :: "string \<rightharpoonup> string"
  refused :: "string set"

definition refusing_os :: "store os" where
  "refusing_os =
     \<lparr>os_open = (\<lambda>fs path mode.
        if path \<in> refused fs then (Some OSError, fs)
        else (None, fs\<lparr>contents := (contents fs)(path \<mapsto> [])\<rparr>)),
      os_write = (\<lambda>fs path s.
        (None,
         fs\<lparr>contents := (contents fs)
               (path \<mapsto> (case contents fs path of None \<Rightarrow> [] | Some t \<Rightarrow> t) @ s)\<rparr>)),
      os_close = (\<lambda>fs path. (None, fs))\<rparr>"

section \<open>Properties\<close>

subsection \<open>The layer list and the recorded summary\<close>

lemma model_layers:
  "model =
     [Conv2D 32 (3, 3) (Some Same), Activation Relu, Conv2D 32 (3, 3) None, Activation Relu,
      MaxPooling2D (2, 2), Dropout (1 / 4),
      Conv2D 64 (3, 3) (Some Same), Activation Relu, Conv2D 64 (3, 3) None, Activation Relu,
      MaxPooling2D (2, 2), Dropout (1 / 4),
      Flatten, Dense 512, Activation Relu, Dropout (1 / 2), Dense 10, Activation Softmax]"
  by (simp add: model_def Sequential_def add_def num_classes_def)

lemma generator_configuration:
  "batch_size train_generator = 64 \<and> shuffle train_generator
   \<and> batch_size valid_generator = 32 \<and> \<not> shuffle valid_generator
   \<and> target_size train_generator = (160, 160) \<and> target_size valid_generator = (160, 160)
   \<and> class_mode train_generator = class_mode valid_generator
   \<and> rescale (image_data_generator train_generator)
       = rescale (image_data_generator valid_generator)"
  by (simp add: train_generator_def valid_generator_def flow_from_directory_def
      train_datagen_def valid_datagen_def)

text \<open>
  The factor both generators are given is a double, 53 significant bits at the exponent
  of \<open>1 / 255\<close>, and no double is nearer to \<open>1 / 255\<close>: it is less than half a unit
  in the last place away.
\<close>

lemma rescale_nearest_double:
  "rescale train_datagen = Some (4521260802379792 / 2 ^ 60)
   \<and> (2::nat) ^ 52 \<le> 4521260802379792 \<and> (4521260802379792::nat) < 2 ^ 53
   \<and> \<bar>4521260802379792 / 2 ^ 60 - 1 / 255\<bar> < (1 / 2 ^ 61 :: rat)"
  by (simp add: train_datagen_def)

text \<open>
  The model reproduces the table printed by \<^verbatim>\<open>model.summary()\<close> in the notebook, row
  by row: output shapes and parameter counts.
\<close>

lemma summary_model:
  "summary model input_shape = Inr
     [([160, 160, 32], 896), ([160, 160, 32], 0),
      ([158, 158, 32], 9248), ([158, 158, 32], 0),
      ([79, 79, 32], 0), ([79, 79, 32], 0),
      ([79, 79, 64], 18496), ([79, 79, 64], 0),
      ([77, 77, 64], 36928), ([77, 77, 64], 0),
      ([38, 38, 64], 0), ([38, 38, 64], 0),
      ([92416], 0),
      ([512], 47317504), ([512], 0), ([512], 0),
      ([10], 5130), ([10], 0)]"
  by (simp add: model_layers input_shape_def conv_output_length_def)

lemma total_params_model:
  "map_sum id (\<lambda>rows. sum_list (map snd rows)) (summary model input_shape) = Inr 47388202"
  by (simp add: summary_model)

subsection \<open>Padding of the convolutions and the width entering the dense layers\<close>

text \<open>
  C10: in each of the two convolution blocks the first \<^verbatim>\<open>Conv2D\<close> is built with
  \<^verbatim>\<open>padding='same'\<close> and keeps height and width, while the second leaves the argument
  out, so it uses \<^verbatim>\<open>'valid'\<close> padding and loses \<open>3 - 1 = 2\<close> cells of height and of
  width. For the \<open>(160, 160, 3)\<close> input the tensor that enters \<^verbatim>\<open>Flatten\<close> has shape
  \<open>(38, 38, 64)\<close>, and the first \<^verbatim>\<open>Dense\<close> layer receives \<open>38 * 38 * 64 = 92416\<close>
  inputs.
\<close>

theorem conv_padding_flatten_shape:
  "filter is_conv model =
     [Conv2D 32 (3, 3) (Some Same), Conv2D 32 (3, 3) None,
      Conv2D 64 (3, 3) (Some Same), Conv2D 64 (3, 3) None]
   \<and> conv_padding (Some Same) = Same \<and> conv_padding None = Valid
   \<and> (\<forall>f h w c. output_shape (Conv2D f (3, 3) (Some Same)) [h, w, c] = Inr [h, w, f])
   \<and> (\<forall>f h w c. 3 \<le> h \<and> 3 \<le> w \<longrightarrow>
         output_shape (Conv2D f (3, 3) None) [h, w, c] = Inr [h - 2, w - 2, f])
   \<and> compute_output_shape (takeWhile (\<lambda>l. l \<noteq> Flatten) model) input_shape = Inr [38, 38, 64]
   \<and> compute_output_shape (takeWhile (\<lambda>l. l \<noteq> Dense 512) model) input_shape = Inr [92416]
   \<and> (38 * 38 * 64 :: nat) = 92416
   \<and> count_params (Dense 512) [92416] = 92416 * 512 + 512"
  by (auto simp add: model_layers input_shape_def conv_output_length_def)

text \<open>The second convolution of the first block, on the shape it receives.\<close>

theorem conv_padding_flatten_shape_witness:
  "(3::nat) \<le> 160 \<and> output_shape (Conv2D 32 (3, 3) None) [160, 160, 32] = Inr [158, 158, 32]"
proof -
  have "3 \<le> h \<and> 3 \<le> w \<longrightarrow>
          output_shape (Conv2D f (3, 3) None) [h, w, c] = Inr [h - 2, w - 2, f]" for f h w c
    using conv_padding_flatten_shape by blast
  from this [of 160 160 32 32] show ?thesis by simp
qed

subsection \<open>The stage sequence of the model\<close>

text \<open>
  \<open>is_spec_stage_stack\<close> accepts exactly the stacks that the words of the specification
  describe, for any number of repetitions of the block.
\<close>

lemma is_spec_stage_stack_sound:
  "is_spec_stage_stack ss \<Longrightarrow> \<exists>n. ss = spec_stage_stack n"
proof (induction ss rule: is_spec_stage_stack.induct)
  case (1 rest)
  then obtain n where "rest = spec_stage_stack n" by auto
  then have "Convolution # ActivationStage # Pooling # DropoutStage # rest
               = spec_stage_stack (Suc n)"
    by (simp add: spec_stage_stack_def spec_block_def)
  then show ?case by blast
qed (auto intro: exI [of _ 0] simp: spec_stage_stack_def)

lemma is_spec_stage_stack_complete:
  "is_spec_stage_stack (spec_stage_stack n)"
  by (induction n) (simp_all add: spec_stage_stack_def spec_block_def spec_head_def)

lemma is_spec_stage_stack_iff:
  "is_spec_stage_stack ss \<longleftrightarrow> (\<exists>n. ss = spec_stage_stack n)"
  using is_spec_stage_stack_sound is_spec_stage_stack_complete by blast

text \<open>
  C2, as stated: the model is the stack "convolution, activation, pooling, dropout,
  repeated, then flatten, dense, activation, dropout, dense, softmax". The stages of the
  model are no such stack, whatever the number of repetitions: the third layer is a
  second convolution where the stated block has its pooling.
\<close>

theorem model_not_spec_stage_stack:
  "\<not> is_spec_stage_stack (map stage_of model)"
  by (simp add: model_layers spec_head_def)

text \<open>
  C2, amended: the model is the block "convolution, activation, convolution,
  activation, pooling, dropout" twice, then "flatten, dense, activation, dropout, dense,
  softmax"; it maps the input shape \<open>(160, 160, 3)\<close> to a vector of width
  \<open>num_classes\<close>, and its last layer is the softmax activation.
\<close>

theorem model_stage_stack:
  "map stage_of model = source_block @ source_block @ spec_head
   \<and> compute_output_shape model input_shape = Inr [num_classes]
   \<and> last model = Activation Softmax"
  by (simp add: model_layers source_block_def spec_head_def input_shape_def num_classes_def
      conv_output_length_def)

subsection \<open>Writing the architecture file in place\<close>

text \<open>
  C8, as stated: when the target path is unwritable a persistence operation fails and
  leaves no partial file, because its write goes to a temporary path that is renamed
  onto the target only on success. With the target path refused by the operating system,
  cell 11 does fail, but the path it asked to open was the target itself: no temporary
  path is involved.
\<close>

theorem save_architecture_opens_target:
  "fst (save_architecture refusing_os
          \<lparr>contents = Map.empty, refused = {''models/custom_architecture.json''}\<rparr>
          ''models/custom_architecture.json'' ''{config}'') = Inl OSError
   \<and> snd (snd (save_architecture refusing_os
          \<lparr>contents = Map.empty, refused = {''models/custom_architecture.json''}\<rparr>
          ''models/custom_architecture.json'' ''{config}''))
       = [Open ''models/custom_architecture.json'' ''w'']
   \<and> \<not> spec_temporary_then_rename ''models/custom_architecture.json''
         (snd (snd (save_architecture refusing_os
            \<lparr>contents = Map.empty, refused = {''models/custom_architecture.json''}\<rparr>
            ''models/custom_architecture.json'' ''{config}'')))"
  by (simp add: save_architecture_def refusing_os_def spec_temporary_then_rename_def)

text \<open>
  C8, amended: writing the architecture file opens the target path itself in write mode;
  it uses no temporary path and no rename. When that open is refused, its error reaches
  the caller, the system is left as the refused open left it, and nothing else is asked
  of it: no write. When the open succeeds, the text is written to the target in place and
  the file is closed, and the call succeeds exactly when both the write and the close do.
\<close>

theorem save_architecture_in_place:
  "(os_open sys fs path ''w'' = (Some e, fs1) \<longrightarrow>
      save_architecture sys fs path json = (Inl e, fs1, [Open path ''w'']))
   \<and> (os_open sys fs path ''w'' = (None, fs1) \<longrightarrow>
        snd (snd (save_architecture sys fs path json))
          = [Open path ''w'', Write path json, Close path]
        \<and> fst (snd (save_architecture sys fs path json))
          = snd (os_close sys (snd (os_write sys fs1 path json)) path)
        \<and> (fst (save_architecture sys fs path json) = Inr () \<longleftrightarrow>
             fst (os_write sys fs1 path json) = None
             \<and> fst (os_close sys (snd (os_write sys fs1 path json)) path) = None))
   \<and> hd (snd (snd (save_architecture sys fs path json))) = Open path ''w''
   \<and> list_all (touches_directly path) (snd (snd (save_architecture sys fs path json)))
   \<and> \<not> list_ex is_rename (snd (snd (save_architecture sys fs path json)))
   \<and> \<not> spec_temporary_then_rename path (snd (snd (save_architecture sys fs path json)))"
  by (auto simp add: save_architecture_def spec_temporary_then_rename_def
      split: prod.splits option.splits)

text \<open>
  The same call on a system that refuses the target, and on one that accepts it and holds
  an older architecture file and another file.
\<close>

theorem save_architecture_in_place_witness:
  "save_architecture refusing_os
       \<lparr>contents = Map.empty, refused = {''models/custom_architecture.json''}\<rparr>
       ''models/custom_architecture.json'' ''{config}''
     = (Inl OSError,
        \<lparr>contents = Map.empty, refused = {''models/custom_architecture.json''}\<rparr>,
        [Open ''models/custom_architecture.json'' ''w''])
   \<and> fst (save_architecture refusing_os
        \<lparr>contents = [''models/custom_architecture.json'' \<mapsto> ''{}'',
                     ''models/notes.txt'' \<mapsto> ''abc''], refused = {}\<rparr>
        ''models/custom_architecture.json'' ''{config}'') = Inr ()
   \<and> snd (snd (save_architecture refusing_os
        \<lparr>contents = [''models/custom_architecture.json'' \<mapsto> ''{}'',
                     ''models/notes.txt'' \<mapsto> ''abc''], refused = {}\<rparr>
        ''models/custom_architecture.json'' ''{config}''))
       = [Open ''models/custom_architecture.json'' ''w'',
          Write ''models/custom_architecture.json'' ''{config}'',
          Close ''models/custom_architecture.json'']
   \<and> contents (fst (snd (save_architecture refusing_os
        \<lparr>contents = [''models/custom_architecture.json'' \<mapsto> ''{}'',
                     ''models/notes.txt'' \<mapsto> ''abc''], refused = {}\<rparr>
        ''models/custom_architecture.json'' ''{config}'')))
        ''models/custom_architecture.json'' = Some ''{config}''"
proof -
  let ?T = "''models/custom_architecture.json''"
  let ?s0 = "\<lparr>contents = Map.empty, refused = {?T}\<rparr>"
  let ?s1 = "\<lparr>contents = [?T \<mapsto> ''{}'', ''models/notes.txt'' \<mapsto> ''abc''], refused = {}\<rparr>"
  have o0: "os_open refusing_os ?s0 ?T ''w'' = (Some OSError, ?s0)"
    by (simp add: refusing_os_def)
  have o1: "os_open refusing_os ?s1 ?T ''w'' = (None, snd (os_open refusing_os ?s1 ?T ''w''))"
    by (simp add: refusing_os_def)
  from save_architecture_in_place [of refusing_os ?s0 ?T OSError ?s0 "''{config}''"] o0
  have r0: "save_architecture refusing_os ?s0 ?T ''{config}''
              = (Inl OSError, ?s0, [Open ?T ''w''])"
    by blast
  from save_architecture_in_place
         [of refusing_os ?s1 ?T _ "snd (os_open refusing_os ?s1 ?T ''w'')" "''{config}''"] o1
  have r1: "snd (snd (save_architecture refusing_os ?s1 ?T ''{config}''))
              = [Open ?T ''w'', Write ?T ''{config}'', Close ?T]
            \<and> fst (snd (save_architecture refusing_os ?s1 ?T ''{config}''))
              = snd (os_close refusing_os
                       (snd (os_write refusing_os (snd (os_open refusing_os ?s1 ?T ''w''))
                          ?T ''{config}'')) ?T)
            \<and> (fst (save_architecture refusing_os ?s1 ?T ''{config}'') = Inr () \<longleftrightarrow>
                 fst (os_write refusing_os (snd (os_open refusing_os ?s1 ?T ''w''))
                        ?T ''{config}'') = None
                 \<and> fst (os_close refusing_os
                       (snd (os_write refusing_os (snd (os_open refusing_os ?s1 ?T ''w''))
                          ?T ''{config}'')) ?T) = None)"
    by blast
  have w: "fst (os_write refusing_os (snd (os_open refusing_os ?s1 ?T ''w'')) ?T ''{config}'')
             = None"
    by (simp add: refusing_os_def)
  have c: "fst (os_close refusing_os
             (snd (os_write refusing_os (snd (os_open refusing_os ?s1 ?T ''w''))
                ?T ''{config}'')) ?T) = None"
    by (simp add: refusing_os_def)
  have k: "contents (snd (os_close refusing_os
             (snd (os_write refusing_os (snd (os_open refusing_os ?s1 ?T ''w''))
                ?T ''{config}'')) ?T)) ?T = Some ''{config}''"
    by (simp add: refusing_os_def)
  from r0 r1 w c k show ?thesis by simp
qed

end
